theory Spec2Isabelle
  imports Complex_Main
begin

section \<open>Impedance tensor and tipper algebra of \<open>mtpy/core/z.py\<close>\<close>

text \<open>
  The model follows \<open>mtpy/core/z.py\<close>. Python floats and complex numbers are modelled by
  the exact reals and complex numbers they approximate, so every equation below is an
  equation of exact arithmetic; NaN and infinities have no counterpart, and a division by a
  zero frequency is excluded by hypothesis wherever a value depends on it.

  A numpy array of shape \<open>(N, 2, 2)\<close> is a list of 2x2 matrices, an array of shape
  \<open>(N, 1, 2)\<close> a list of pairs. Attributes that may hold \<open>None\<close> are options. A method
  that mutates \<open>self\<close> takes the object and returns the object it leaves behind together
  with the exception it raised, if any: an exception leaves behind whatever had been written
  before it.
\<close>

subsection \<open>Exceptions, log records, arrays\<close>

datatype exn =
    IndexError | TypeError | AttributeError | UnboundLocalError
  | MTpyError_Z | MTpyError_EDI | MTpyError_inputarguments

datatype level = INFO | WARN | ERROR

type_synonym logrec = "level \<times> string"

datatype 'a mat2 = Mat2 'a 'a 'a 'a

fun mat2_get :: "'a mat2 \<Rightarrow> nat \<Rightarrow> nat \<Rightarrow> 'a" where
  "mat2_get (Mat2 a b c d) ii jj =
     (if ii = 0 then (if jj = 0 then a else b) else (if jj = 0 then c else d))"

fun mat2_set :: "'a mat2 \<Rightarrow> nat \<Rightarrow> nat \<Rightarrow> 'a \<Rightarrow> 'a mat2" where
  "mat2_set (Mat2 a b c d) ii jj v =
     (if ii = 0 then (if jj = 0 then Mat2 v b c d else Mat2 a v c d)
      else (if jj = 0 then Mat2 a b v d else Mat2 a b c v))"

text \<open>\<open>a[idx_f, ii, jj]\<close> and \<open>a[idx_f, ii, jj] = v\<close>; the callers check \<open>idx_f\<close> against
  the length first and raise \<open>IndexError\<close> themselves.\<close>

definition get3 :: "'a mat2 list \<Rightarrow> nat \<Rightarrow> nat \<Rightarrow> nat \<Rightarrow> 'a" where
  "get3 a idx_f ii jj = mat2_get (a ! idx_f) ii jj"

definition set3 :: "'a mat2 list \<Rightarrow> nat \<Rightarrow> nat \<Rightarrow> nat \<Rightarrow> 'a \<Rightarrow> 'a mat2 list" where
  "set3 a idx_f ii jj v = a[idx_f := mat2_set (a ! idx_f) ii jj v]"

definition zeros_like :: "'b mat2 list \<Rightarrow> ('a::zero) mat2 list" where
  "zeros_like a = map (\<lambda>_. Mat2 0 0 0 0) a"

text \<open>The constructor accepts a single 2x2 matrix or an array of shape \<open>(N, 2, 2)\<close>.\<close>

datatype 'a array_arg = Arr2 "'a mat2" | Arr3 "'a mat2 list"

subsection \<open>\<open>math\<close> and \<open>cmath\<close>\<close>

definition degrees :: "real \<Rightarrow> real" where
  "degrees x = x * 180 / pi"

definition radians :: "real \<Rightarrow> real" where
  "radians x = x * pi / 180"

definition atan2 :: "real \<Rightarrow> real \<Rightarrow> real" where
  "atan2 y x =
     (if 0 < x then arctan (y / x)
      else if x < 0 then (if 0 \<le> y then arctan (y / x) + pi else arctan (y / x) - pi)
      else if 0 < y then pi / 2
      else if y < 0 then - (pi / 2)
      else 0)"

definition phase :: "complex \<Rightarrow> real" where
  "phase c = atan2 (Im c) (Re c)"

definition rect :: "real \<Rightarrow> real \<Rightarrow> complex" where
  "rect r phi = Complex (r * cos phi) (r * sin phi)"

text \<open>Python's \<open>x % m\<close> on floats, for a positive \<open>m\<close>: the remainder lies in \<open>[0, m)\<close>.\<close>

definition pymod :: "real \<Rightarrow> real \<Rightarrow> real" where
  "pymod x m = x - m * of_int \<lfloor>x / m\<rfloor>"


subsection \<open>The class \<open>Z\<close>\<close>

datatype rot = RFloat real | RArray "real list"

record Z =
  Z_z :: "complex mat2 list option"
  Z_z_err :: "real mat2 list option"
  Z_freq :: "real list option"
  Z_rotation_angle :: rot
  Z_resistivity :: "real mat2 list option"
  Z_resistivity_err :: "real mat2 list option"
  Z_phase :: "real mat2 list option"
  Z_phase_err :: "real mat2 list option"
  Z_log :: "logrec list"

definition logger :: "level \<Rightarrow> string \<Rightarrow> Z \<Rightarrow> Z" where
  "logger l msg s = s\<lparr>Z_log := Z_log s @ [(l, msg)]\<rparr>"

text \<open>
  The four arrays that \<open>_compute_res_phase\<close> allocates and then fills cell by cell.
  \<open>MTcc.z_error2r_phi_error\<close> is not part of the sources at hand: it is the parameter
  \<open>z_error2r_phi_error\<close> of everything that reaches it.
\<close>

record derived =
  resistivity :: "real mat2 list"
  phase_deg :: "real mat2 list"
  resistivity_err :: "real mat2 list option"
  phase_err :: "real mat2 list option"

type_synonym err_fn = "real \<Rightarrow> real \<Rightarrow> real \<Rightarrow> real \<Rightarrow> real \<times> real"

text \<open>The body of the three nested loops at one cell \<open>(idx_f, ii, jj)\<close>.\<close>

definition res_phase_cell ::
  "err_fn \<Rightarrow> complex mat2 list \<Rightarrow> real list \<Rightarrow> real mat2 list option \<Rightarrow>
   nat \<times> nat \<times> nat \<Rightarrow> derived \<Rightarrow> derived \<times> exn option" where
  "res_phase_cell z_error2r_phi_error z freq z_err c d =
     (case c of (idx_f, ii, jj) \<Rightarrow>
        if length freq \<le> idx_f then (d, Some IndexError)
        else
          let zc = get3 z idx_f ii jj;
              d1 = d\<lparr>resistivity :=
                        set3 (resistivity d) idx_f ii jj ((cmod zc)\<^sup>2 / (freq ! idx_f) * 0.2)\<rparr>;
              d2 = d1\<lparr>phase_deg := set3 (phase_deg d1) idx_f ii jj (degrees (phase zc))\<rparr>
          in (case z_err of
                None \<Rightarrow> (d2, None)
              | Some e \<Rightarrow>
                  if length e \<le> idx_f then (d2, Some IndexError)
                  else
                    (case z_error2r_phi_error (Re zc) (get3 e idx_f ii jj)
                                              (Im zc) (get3 e idx_f ii jj) of
                       (r_err, phi_err) \<Rightarrow>
                         (d2\<lparr>resistivity_err :=
                               map_option (\<lambda>a. set3 a idx_f ii jj
                                  (0.4 * cmod zc / (freq ! idx_f) * r_err))
                                 (resistivity_err d2),
                             phase_err :=
                               map_option (\<lambda>a. set3 a idx_f ii jj phi_err) (phase_err d2)\<rparr>,
                          None))))"

fun res_phase_loop ::
  "err_fn \<Rightarrow> complex mat2 list \<Rightarrow> real list \<Rightarrow> real mat2 list option \<Rightarrow>
   (nat \<times> nat \<times> nat) list \<Rightarrow> derived \<Rightarrow> derived \<times> exn option" where
  "res_phase_loop E z freq z_err [] d = (d, None)"
| "res_phase_loop E z freq z_err (c # cs) d =
     (case res_phase_cell E z freq z_err c d of
        (d', Some e) \<Rightarrow> (d', Some e)
      | (d', None) \<Rightarrow> res_phase_loop E z freq z_err cs d')"

text \<open>\<open>for idx_f in range(n): for ii in range(2): for jj in range(2)\<close>.\<close>

definition cells :: "nat \<Rightarrow> (nat \<times> nat \<times> nat) list" where
  "cells n = concat (map (\<lambda>idx_f. [(idx_f, 0, 0), (idx_f, 0, 1), (idx_f, 1, 0), (idx_f, 1, 1)])
                         [0..<n])"

definition store_derived :: "derived \<Rightarrow> Z \<Rightarrow> Z" where
  "store_derived d s =
     s\<lparr>Z_resistivity := Some (resistivity d), Z_phase := Some (phase_deg d),
       Z_resistivity_err := resistivity_err d, Z_phase_err := phase_err d\<rparr>"

definition compute_res_phase :: "err_fn \<Rightarrow> Z \<Rightarrow> Z \<times> exn option" where
  "compute_res_phase E s =
     (case Z_freq s of
        None \<Rightarrow> (logger INFO ''self.freq is None - cannot calculate Res/Phase'' s, None)
      | Some freq \<Rightarrow>
          (case Z_z s of
             None \<Rightarrow> (logger INFO ''Z array is None - cannot calculate Res/Phase'' s, None)
           | Some z \<Rightarrow>
               (case res_phase_loop E z freq (Z_z_err s) (cells (length z))
                       \<lparr>resistivity = zeros_like z, phase_deg = zeros_like z,
                        resistivity_err = map_option zeros_like (Z_z_err s),
                        phase_err = map_option zeros_like (Z_z_err s)\<rparr> of
                  (d, e) \<Rightarrow> (store_derived d s, e))))"

text \<open>\<open>Z.__init__\<close>: a single 2x2 matrix is promoted to an array of length one.\<close>

definition promote :: "'a array_arg option \<Rightarrow> 'a mat2 list option" where
  "promote a = (case a of None \<Rightarrow> None | Some (Arr2 m) \<Rightarrow> Some [m] | Some (Arr3 ms) \<Rightarrow> Some ms)"

definition Z_init ::
  "err_fn \<Rightarrow> complex array_arg option \<Rightarrow> real array_arg option \<Rightarrow> real list option
   \<Rightarrow> Z \<times> exn option" where
  "Z_init E z_array z_err_array freq =
     (let s = \<lparr>Z_z = promote z_array, Z_z_err = promote z_err_array, Z_freq = freq,
               Z_rotation_angle =
                 (case promote z_array of None \<Rightarrow> RFloat 0
                  | Some z \<Rightarrow> RArray (replicate (length z) 0)),
               Z_resistivity = None, Z_resistivity_err = None,
               Z_phase = None, Z_phase_err = None, Z_log = []\<rparr>
      in if Z_z s \<noteq> None then compute_res_phase E s else (s, None))"

subsection \<open>The setters of \<open>freq\<close>, \<open>z\<close> and \<open>z_err\<close>\<close>

text \<open>\<open>try: self._compute_res_phase() except IndexError: logger.error(...)\<close>.\<close>

definition catch_IndexError :: "string \<Rightarrow> Z \<times> exn option \<Rightarrow> Z \<times> exn option" where
  "catch_IndexError msg r =
     (case r of (s, Some IndexError) \<Rightarrow> (logger ERROR msg s, None) | _ \<Rightarrow> r)"

datatype freq_arg = FScalar real | FSeq "real list"

definition set_freq :: "err_fn \<Rightarrow> freq_arg \<Rightarrow> Z \<Rightarrow> Z \<times> exn option" where
  "set_freq E lo_freq s =
     (let lo = (case lo_freq of FScalar x \<Rightarrow> [x] | FSeq xs \<Rightarrow> xs) in
      if (case Z_z s of None \<Rightarrow> False | Some z \<Rightarrow> length lo \<noteq> length z)
      then (logger WARN ''length of freq list/array not correct'' s, None)
      else
        let s1 = s\<lparr>Z_freq := Some lo\<rparr> in
        if Z_z s1 \<noteq> None
        then catch_IndexError ''Need to input frequency array'' (compute_res_phase E s1)
        else (s1, None))"

text \<open>
  \<open>_set_z\<close>: only an array of shape \<open>(N, 2, 2)\<close> is stored. For a 2x2 argument the test
  \<open>len(z_array.shape) == 3\<close> is false without raising, so the \<open>except IndexError\<close>
  branch that would promote it never runs.
\<close>

definition set_z :: "err_fn \<Rightarrow> complex array_arg \<Rightarrow> Z \<Rightarrow> Z \<times> exn option" where
  "set_z E z_array s =
     (let s1 = (case z_array of Arr3 a \<Rightarrow> s\<lparr>Z_z := Some a\<rparr> | Arr2 m \<Rightarrow> s) in
      case (case Z_rotation_angle s1 of
              RArray a \<Rightarrow> Inr s1
            | RFloat r \<Rightarrow>
                (case Z_z s1 of
                   None \<Rightarrow> Inl TypeError
                 | Some z \<Rightarrow> Inr (s1\<lparr>Z_rotation_angle := RArray (replicate (length z) r)\<rparr>)))
      of
        Inl e \<Rightarrow> (s1, Some e)
      | Inr s2 \<Rightarrow>
          if Z_z s2 \<noteq> None
          then catch_IndexError ''Need to input frequency array'' (compute_res_phase E s2)
          else (s2, None))"

text \<open>\<open>_set_z_err\<close>, for an argument of the documented shape \<open>(M, 2, 2)\<close>.\<close>

definition set_z_err :: "err_fn \<Rightarrow> real mat2 list \<Rightarrow> Z \<Rightarrow> Z \<times> exn option" where
  "set_z_err E z_err_array s =
     (case Z_z s of
        None \<Rightarrow> (s, Some AttributeError)
      | Some z \<Rightarrow>
          let s1 = (if length z_err_array \<noteq> length z
                    then logger WARN ''z_err_array shape is not same shape as z'' s else s);
              s2 = s1\<lparr>Z_z_err := Some z_err_array\<rparr>
          in catch_IndexError ''Need to input frequency array'' (compute_res_phase E s2))"

subsection \<open>\<open>set_res_phase\<close>\<close>

definition z_of_res_phase :: "real \<Rightarrow> real \<Rightarrow> real \<Rightarrow> complex" where
  "z_of_res_phase f r p = rect (sqrt (5 * f * r)) (radians p)"

definition mat2_map2 :: "('a \<Rightarrow> 'b \<Rightarrow> 'c) \<Rightarrow> 'a mat2 \<Rightarrow> 'b mat2 \<Rightarrow> 'c mat2" where
  "mat2_map2 g m n =
     Mat2 (g (mat2_get m 0 0) (mat2_get n 0 0)) (g (mat2_get m 0 1) (mat2_get n 0 1))
          (g (mat2_get m 1 0) (mat2_get n 1 0)) (g (mat2_get m 1 1) (mat2_get n 1 1))"

text \<open>The loop that fills \<open>z_new\<close>; every index is in range of \<open>freq\<close>, \<open>res_array\<close> and
  \<open>phase_array\<close> once the length checks have passed, and every cell is overwritten.\<close>

definition fill_z_new :: "real list \<Rightarrow> real mat2 list \<Rightarrow> real mat2 list \<Rightarrow> nat \<Rightarrow> complex mat2 list" where
  "fill_z_new freq res_array phase_array n =
     map (\<lambda>idx_f. mat2_map2 (z_of_res_phase (freq ! idx_f))
                             (res_array ! idx_f) (phase_array ! idx_f)) [0..<n]"

definition z_err_of_res_phase :: "err_fn \<Rightarrow> real \<Rightarrow> real \<Rightarrow> real \<Rightarrow> real \<Rightarrow> real \<Rightarrow> real" where
  "z_err_of_res_phase P f r p rerr perr =
     (let abs_z = sqrt (5 * f * r);
          rel_error_res = rerr / r;
          abs_z_error = 0.5 * abs_z * rel_error_res
      in case P abs_z abs_z_error p perr of (x_err, y_err) \<Rightarrow> max x_err y_err)"

definition fill_z_err_new ::
  "err_fn \<Rightarrow> real list \<Rightarrow> real mat2 list \<Rightarrow> real mat2 list \<Rightarrow> real mat2 list \<Rightarrow> real mat2 list
   \<Rightarrow> nat \<Rightarrow> real mat2 list" where
  "fill_z_err_new P freq res_array phase_array reserr_array phaseerr_array n =
     map (\<lambda>idx_f.
            mat2_map2 (\<lambda>(r, p) (rerr, perr). z_err_of_res_phase P (freq ! idx_f) r p rerr perr)
              (mat2_map2 Pair (res_array ! idx_f) (phase_array ! idx_f))
              (mat2_map2 Pair (reserr_array ! idx_f) (phaseerr_array ! idx_f))) [0..<n]"

text \<open>
  \<open>res_array\<close> and \<open>phase_array\<close> are real arrays of shape \<open>(N, 2, 2)\<close>, so the two
  tests for a vanishing imaginary part pass. \<open>MTcc.propagate_error_polar2rect\<close> is the
  parameter \<open>P\<close>.
\<close>

definition set_res_phase ::
  "err_fn \<Rightarrow> err_fn \<Rightarrow> real mat2 list \<Rightarrow> real mat2 list \<Rightarrow> real mat2 list option
   \<Rightarrow> real mat2 list option \<Rightarrow> Z \<Rightarrow> Z \<times> exn option" where
  "set_res_phase E P res_array phase_array reserr_array phaseerr_array s =
     (if (case Z_z s of Some z \<Rightarrow> length z \<noteq> length res_array
                      | None \<Rightarrow> False)
      then (logger ERROR ''Error - shape of \"res\" array does not match shape of Z array'' s, None)
      else if (case Z_z s of Some z \<Rightarrow> length z \<noteq> length phase_array
                           | None \<Rightarrow> length res_array \<noteq> length phase_array)
      then (logger ERROR ''Error - shape of \"phase\" array does not match shape'' s, None)
      else
        (case Z_freq s of
           None \<Rightarrow> (s, Some MTpyError_EDI)
         | Some freq \<Rightarrow>
             if length freq \<noteq> length res_array then (s, Some MTpyError_EDI)
             else
               (case set_z E (Arr3 (fill_z_new freq res_array phase_array (length res_array))) s of
                  (s1, Some e) \<Rightarrow> (s1, Some e)
                | (s1, None) \<Rightarrow>
                    (case (reserr_array, phaseerr_array) of
                       (Some rerr, Some perr) \<Rightarrow>
                         if (case Z_z_err s1 of Some ze \<Rightarrow> length ze \<noteq> length rerr
                                              | None \<Rightarrow> False)
                         then (logger ERROR
                                 ''Error - shape of \"reserr\" array does not match shape of Zerr array''
                                 s1, None)
                         else if (case Z_z_err s1 of Some ze \<Rightarrow> length ze \<noteq> length perr
                                                  | None \<Rightarrow> length rerr \<noteq> length perr)
                         then (logger ERROR
                                 ''Error - shape of \"phase\" array does not match shape of Zerr array''
                                 s1, None)
                         else if length freq < length rerr then (s1, Some IndexError)
                         else
                           (case set_z_err E
                                   (fill_z_err_new P freq res_array phase_array rerr perr
                                      (length rerr)) s1 of
                              (s2, Some e) \<Rightarrow> (s2, Some e)
                            | (s2, None) \<Rightarrow> compute_res_phase E s2)
                     | _ \<Rightarrow> (s1, None)))))"

subsection \<open>\<open>Z.rotate\<close>\<close>







subsection \<open>\<open>remove_ss\<close>, \<open>remove_distortion\<close>, \<open>only1d\<close>, \<open>only2d\<close>\<close>

text \<open>
  A correction factor is a number or a one-dimensional array. For an array whose length is not
  one, the source evaluates \<open>np.repeat(x_factor, len(reduce_res_factor_x))\<close> with
  \<open>x_factor\<close> never assigned on that path, which raises \<open>UnboundLocalError\<close>; the handler
  there catches \<open>ValueError\<close> only.
\<close>

datatype factor_arg = Scalar real | Seq "real list"

definition lo_factors :: "factor_arg \<Rightarrow> complex mat2 list option \<Rightarrow> exn + real list" where
  "lo_factors reduce_res_factor z =
     (case (case reduce_res_factor of
              Scalar x \<Rightarrow> Inr x
            | Seq xs \<Rightarrow> if length xs = 1 then Inr (hd xs) else Inl UnboundLocalError) of
        Inl e \<Rightarrow> Inl e
      | Inr factor \<Rightarrow>
          (case z of None \<Rightarrow> Inl TypeError | Some a \<Rightarrow> Inr (replicate (length a) factor)))"

definition scale_rows :: "complex mat2 \<Rightarrow> real \<Rightarrow> real \<Rightarrow> complex mat2" where
  "scale_rows m x_factor y_factor =
     Mat2 (mat2_get m 0 0 / complex_of_real (sqrt x_factor))
          (mat2_get m 0 1 / complex_of_real (sqrt x_factor))
          (mat2_get m 1 0 / complex_of_real (sqrt y_factor))
          (mat2_get m 1 1 / complex_of_real (sqrt y_factor))"

text \<open>
  \<open>remove_ss\<close> returns \<open>(static_shift, z_corrected)\<close>. It assigns no attribute of
  \<open>self\<close>, and \<open>z_corrected\<close> is a copy, so the object is the same afterwards: the model
  returns the two arrays only. \<open>np.repeat(x_factor, len(self.z))\<close> raises \<open>TypeError\<close>
  when \<open>z\<close> is \<open>None\<close>; otherwise both factor lists have the length of \<open>z\<close>, so the two
  tests for a wrong number of factors never fire.
\<close>

definition remove_ss ::
  "factor_arg \<Rightarrow> factor_arg \<Rightarrow> Z \<Rightarrow> exn + real mat2 list \<times> complex mat2 list" where
  "remove_ss reduce_res_factor_x reduce_res_factor_y s =
     (case lo_factors reduce_res_factor_x (Z_z s) of
        Inl e \<Rightarrow> Inl e
      | Inr lo_x_factors \<Rightarrow>
          (case lo_factors reduce_res_factor_y (Z_z s) of
             Inl e \<Rightarrow> Inl e
           | Inr lo_y_factors \<Rightarrow>
               (case Z_z s of
                  None \<Rightarrow> Inl TypeError
                | Some z \<Rightarrow>
                    Inr (map (\<lambda>idx_f. Mat2 (sqrt (lo_x_factors ! idx_f)) 0
                                            0 (sqrt (lo_y_factors ! idx_f))) [0..<length z],
                         map (\<lambda>idx_f. scale_rows (z ! idx_f) (lo_x_factors ! idx_f)
                                                  (lo_y_factors ! idx_f)) [0..<length z]))))"

text \<open>The product of a real with a complex 2x2 matrix (\<open>np.dot(DI, np.matrix(...))\<close>).\<close>

definition dot :: "real mat2 \<Rightarrow> complex mat2 \<Rightarrow> complex mat2" where
  "dot a b =
     Mat2 (complex_of_real (mat2_get a 0 0) * mat2_get b 0 0
             + complex_of_real (mat2_get a 0 1) * mat2_get b 1 0)
          (complex_of_real (mat2_get a 0 0) * mat2_get b 0 1
             + complex_of_real (mat2_get a 0 1) * mat2_get b 1 1)
          (complex_of_real (mat2_get a 1 0) * mat2_get b 0 0
             + complex_of_real (mat2_get a 1 1) * mat2_get b 1 0)
          (complex_of_real (mat2_get a 1 0) * mat2_get b 0 1
             + complex_of_real (mat2_get a 1 1) * mat2_get b 1 1)"

text \<open>
  The distortion tensor and its error are both 2x2, or both sequences of 2x2 matrices of
  which the first is taken; a missing error is \<open>np.zeros_like(distortion_tensor)\<close>.
\<close>

datatype distortion_arg =
    D2 "real mat2" "real mat2 option"
  | D3 "real mat2 list" "real mat2 list option"

definition first_distortion :: "distortion_arg \<Rightarrow> exn + real mat2 \<times> real mat2" where
  "first_distortion a =
     (case a of
        D2 d None \<Rightarrow> Inr (d, Mat2 0 0 0 0)
      | D2 d (Some e) \<Rightarrow> Inr (d, e)
      | D3 ds es \<Rightarrow>
          (case ds of
             [] \<Rightarrow> Inl MTpyError_Z
           | d # _ \<Rightarrow>
               (case es of
                  None \<Rightarrow> Inr (d, Mat2 0 0 0 0)
                | Some [] \<Rightarrow> Inl MTpyError_Z
                | Some (e # _) \<Rightarrow> Inr (d, e))))"

text \<open>The sum of the four absolute values that makes one cell of \<open>z_corrected_err\<close>.\<close>

definition corrected_err_cell ::
  "real mat2 \<Rightarrow> real mat2 \<Rightarrow> complex mat2 \<Rightarrow> real mat2 \<Rightarrow> nat \<Rightarrow> nat \<Rightarrow> real" where
  "corrected_err_cell DI DI_err zm zm_err ii jj =
       cmod (complex_of_real (mat2_get DI_err ii 0) * mat2_get zm 0 jj)
     + \<bar>mat2_get DI ii 0 * mat2_get zm_err 0 jj\<bar>
     + cmod (complex_of_real (mat2_get DI_err ii 1) * mat2_get zm 1 jj)
     + \<bar>mat2_get DI ii 1 * mat2_get zm_err 1 jj\<bar>"

text \<open>\<open>for ii in range(2): for jj in range(2)\<close> fills the four cells of one index.\<close>

definition corrected_err_row :: "real mat2 \<Rightarrow> real mat2 \<Rightarrow> complex mat2 \<Rightarrow> real mat2 \<Rightarrow> real mat2" where
  "corrected_err_row DI DI_err zm em =
     Mat2 (corrected_err_cell DI DI_err zm em 0 0) (corrected_err_cell DI DI_err zm em 0 1)
          (corrected_err_cell DI DI_err zm em 1 0) (corrected_err_cell DI DI_err zm em 1 1)"

fun distortion_loop ::
  "real mat2 \<Rightarrow> real mat2 \<Rightarrow> complex mat2 list \<Rightarrow> real mat2 list option \<Rightarrow> nat list
   \<Rightarrow> complex mat2 list \<times> real mat2 list option
   \<Rightarrow> exn + complex mat2 list \<times> real mat2 list option" where
  "distortion_loop DI DI_err z z_err [] acc = Inr acc"
| "distortion_loop DI DI_err z z_err (idx_f # rest) (z_corrected, z_corrected_err) =
     (case z_err of
        None \<Rightarrow> Inl TypeError
      | Some e \<Rightarrow>
          if length e \<le> idx_f then Inl IndexError
          else
            distortion_loop DI DI_err z z_err rest
              (z_corrected[idx_f := dot DI (z ! idx_f)],
               map_option
                 (\<lambda>a. a[idx_f := corrected_err_row DI DI_err (z ! idx_f) (e ! idx_f)])
                 z_corrected_err))"

text \<open>
  \<open>DI = distortion_tensor.I\<close> is numpy's matrix inverse, and the source has no test of
  its own: it turns numpy's \<open>LinAlgError\<close> into \<open>MTpyError_Z\<close>. numpy raises that
  error when its LU factorisation meets a pivot that is exactly zero, which rounding decides
  and a vanishing determinant does not imply. So the inverse is the parameter \<open>matrix_I\<close>,
  with \<open>None\<close> for \<open>LinAlgError\<close>.

  \<open>MTcc.invertmatrix_incl_errors\<close> is not part of the sources at hand: it is the parameter
  \<open>invertmatrix_incl_errors\<close>, which returns the inverse and its error or raises.
  \<open>remove_distortion\<close> returns \<open>(distortion_tensor, z_corrected, z_corrected_err)\<close> and
  assigns no attribute of \<open>self\<close>.
\<close>

type_synonym inv_fn = "real mat2 \<Rightarrow> real mat2 option"
type_synonym inv_err_fn = "real mat2 \<Rightarrow> real mat2 \<Rightarrow> exn + real mat2 \<times> real mat2"

definition remove_distortion ::
  "inv_fn \<Rightarrow> inv_err_fn \<Rightarrow> distortion_arg \<Rightarrow> Z
   \<Rightarrow> exn + real mat2 \<times> complex mat2 list \<times> real mat2 list option" where
  "remove_distortion matrix_I invertmatrix_incl_errors distortion s =
     (case first_distortion distortion of
        Inl e \<Rightarrow> Inl e
      | Inr (distortion_tensor, distortion_err_tensor) \<Rightarrow>
          (case matrix_I distortion_tensor of
             None \<Rightarrow> Inl MTpyError_Z
           | Some DI \<Rightarrow>
               (case invertmatrix_incl_errors distortion_tensor distortion_err_tensor of
                  Inl e \<Rightarrow> Inl e
                | Inr (dummy, DI_err) \<Rightarrow>
                    (case Z_z s of
                       None \<Rightarrow> Inl TypeError
                     | Some z \<Rightarrow>
                         (case distortion_loop DI DI_err z (Z_z_err s) [0..<length z]
                                 (zeros_like z, map_option zeros_like (Z_z_err s)) of
                            Inl e \<Rightarrow> Inl e
                          | Inr (z_corrected, z_corrected_err) \<Rightarrow>
                              Inr (distortion_tensor, z_corrected, z_corrected_err))))))"

text \<open>
  \<open>np.sign\<close> of a complex number, as numpy 1.x defines it (the source is written against
  it, using \<open>np.complex\<close>): the sign of the real part, or of the imaginary part when the
  real part is zero, as a complex number.
\<close>

definition np_sign :: "complex \<Rightarrow> complex" where
  "np_sign c = complex_of_real (if Re c \<noteq> 0 then sgn (Re c) else sgn (Im c))"

definition only1d_row :: "complex mat2 \<Rightarrow> complex mat2" where
  "only1d_row m =
     (let sign01 = np_sign (mat2_get m 0 1);
          sign10 = np_sign (mat2_get m 1 0);
          mean1d = 0.5 * (mat2_get m 1 0 + mat2_get m 0 1)
      in Mat2 0 (sign01 * mean1d) (sign10 * mean1d) 0)"

definition get_only1d :: "Z \<Rightarrow> exn + complex mat2 list" where
  "get_only1d s =
     (case Z_z s of None \<Rightarrow> Inl TypeError | Some z \<Rightarrow> Inr (map only1d_row z))"

definition only2d_row :: "complex mat2 \<Rightarrow> complex mat2" where
  "only2d_row m = Mat2 0 (mat2_get m 0 1) (mat2_get m 1 0) 0"

definition get_only2d :: "Z \<Rightarrow> exn + complex mat2 list" where
  "get_only2d s =
     (case Z_z s of None \<Rightarrow> Inl TypeError | Some z \<Rightarrow> Inr (map only2d_row z))"

subsection \<open>The class \<open>Tipper\<close>\<close>

type_synonym 'a vec2 = "'a \<times> 'a"



record Tipper =
  T_tipper :: "complex vec2 list option"
  T_tipper_err :: "real vec2 list option"
  T_freq :: "real list option"
  T_rotation_angle :: rot
  T_amplitude :: "real vec2 list option"
  T_amplitude_err :: "real vec2 list option"
  T_phase :: "real vec2 list option"
  T_phase_err :: "real vec2 list option"
  T_mag_real :: "real list option"
  T_mag_imag :: "real list option"
  T_angle_real :: "real list option"
  T_angle_imag :: "real list option"
  T_mag_err :: "real list option"
  T_angle_err :: "real list option"
  T_log :: "logrec list"


text \<open>\<open>Tipper.__init__\<close> stores its arguments and sets every derived attribute to
  \<open>None\<close>; it calls neither \<open>_compute_mag_direction\<close> nor \<open>_compute_amp_phase\<close>.\<close>

definition Tipper_init ::
  "complex vec2 list option \<Rightarrow> real vec2 list option \<Rightarrow> real list option \<Rightarrow> Tipper" where
  "Tipper_init tipper_array tipper_err_array freq =
     \<lparr>T_tipper = tipper_array, T_tipper_err = tipper_err_array, T_freq = freq,
      T_rotation_angle =
        (case tipper_array of None \<Rightarrow> RFloat 0
         | Some t \<Rightarrow> RArray (replicate (length t) 0)),
      T_amplitude = None, T_amplitude_err = None, T_phase = None, T_phase_err = None,
      T_mag_real = None, T_mag_imag = None, T_angle_real = None, T_angle_imag = None,
      T_mag_err = None, T_angle_err = None, T_log = []\<rparr>"

definition compute_mag_direction :: "Tipper \<Rightarrow> Tipper" where
  "compute_mag_direction s =
     (case T_tipper s of
        None \<Rightarrow> s
      | Some t \<Rightarrow>
          s\<lparr>T_mag_real := Some (map (\<lambda>(tx, ty). sqrt ((Re tx)\<^sup>2 + (Re ty)\<^sup>2)) t),
            T_mag_imag := Some (map (\<lambda>(tx, ty). sqrt ((Im tx)\<^sup>2 + (Im ty)\<^sup>2)) t),
            T_angle_real := Some (map (\<lambda>(tx, ty). degrees (atan2 (- Re ty) (- Re tx))) t),
            T_angle_imag := Some (map (\<lambda>(tx, ty). degrees (atan2 (- Im ty) (- Im tx))) t),
            T_mag_err :=
              map_option (map (\<lambda>(ex, ey). sqrt (ex\<^sup>2 + ey\<^sup>2))) (T_tipper_err s),
            T_angle_err :=
              map_option (map (\<lambda>(ex, ey). pymod (degrees (atan2 ex ey)) 45)) (T_tipper_err s)\<rparr>)"








subsection \<open>The \<open>freq\<close> getter and the arrays it returns\<close>

text \<open>
  Whether a caller can reach the stored frequencies through the array that \<open>_get_freq\<close>
  returns is a question of aliasing, so here arrays live in a store: an address is an index
  into the list of all arrays allocated so far, and the attribute \<open>_freq\<close> holds an address
  or \<open>None\<close>. \<open>np.array(a)\<close> allocates a new array with the contents of \<open>a\<close>.
\<close>

type_synonym addr = nat
type_synonym store = "real list list"

definition np_array :: "store \<Rightarrow> addr \<Rightarrow> addr \<times> store" where
  "np_array h a = (length h, h @ [h ! a])"

definition get_freq :: "addr option \<Rightarrow> store \<Rightarrow> addr option \<times> store" where
  "get_freq self_freq h =
     (case self_freq of
        None \<Rightarrow> (None, h)
      | Some a \<Rightarrow> (case np_array h a of (b, h') \<Rightarrow> (Some b, h')))"

text \<open>\<open>b[i] = v\<close> on the array at address \<open>b\<close>, and the contents of an attribute.\<close>

definition setitem :: "addr \<Rightarrow> nat \<Rightarrow> real \<Rightarrow> store \<Rightarrow> store" where
  "setitem b i v h = h[b := (h ! b)[i := v]]"

definition deref :: "store \<Rightarrow> addr option \<Rightarrow> real list option" where
  "deref h r = map_option (\<lambda>a. h ! a) r"

subsection \<open>The formulas of the specification, and example data\<close>

text \<open>
  Following the specification's words: \<open>resistivity[i,c] = |Z[i,c]|^2 / freq[i] * 0.2\<close>
  and \<open>phase[i,c]\<close> the atan2-based phase of \<open>Z[i,c]\<close> in degrees, for the whole array.
\<close>

definition resistivity_formula :: "complex mat2 \<Rightarrow> real \<Rightarrow> real mat2" where
  "resistivity_formula m f = map_mat2 (\<lambda>c. (cmod c)\<^sup>2 / f * 0.2) m"

definition phase_formula :: "complex mat2 \<Rightarrow> real mat2" where
  "phase_formula m = map_mat2 (\<lambda>c. degrees (atan2 (Im c) (Re c))) m"

definition res_of :: "complex mat2 list \<Rightarrow> real list \<Rightarrow> real mat2 list" where
  "res_of z freq = map (\<lambda>i. resistivity_formula (z ! i) (freq ! i)) [0..<length z]"

definition phase_of :: "complex mat2 list \<Rightarrow> real mat2 list" where
  "phase_of z = map phase_formula z"

text \<open>
  The state of the derived attributes that the setters maintain: without frequencies they
  are all \<open>None\<close>; with a tensor and frequencies whose lengths allow the loop of
  \<open>_compute_res_phase\<close> to finish, resistivity and phase are the arrays of the formulas.
\<close>

definition derived_ok :: "Z \<Rightarrow> bool" where
  "derived_ok s =
     (case Z_freq s of
        None \<Rightarrow> Z_resistivity s = None \<and> Z_phase s = None
                \<and> Z_resistivity_err s = None \<and> Z_phase_err s = None
      | Some freq \<Rightarrow>
          (case Z_z s of
             None \<Rightarrow> True
           | Some z \<Rightarrow>
               if length z \<le> length freq
                  \<and> (case Z_z_err s of None \<Rightarrow> True | Some e \<Rightarrow> length z \<le> length e)
               then Z_resistivity s = Some (res_of z freq) \<and> Z_phase s = Some (phase_of z)
               else True))"

text \<open>The tensor \<open>z_test\<close> of the class docstring, and stand-ins for the helpers of
  \<open>mtpy.utils.calculator\<close> in the examples below.\<close>

definition z_test :: "complex mat2" where
  "z_test = Mat2 0 (Complex 1 1) (Complex (- 1) (- 1)) 0"

definition zero_err_fn :: err_fn where
  "zero_err_fn re re_err im im_err = (0, 0)"





text \<open>The entries of an array of standard deviations are not negative.\<close>

definition nonneg_mat2 :: "real mat2 \<Rightarrow> bool" where
  "nonneg_mat2 m = (0 \<le> mat2_get m 0 0 \<and> 0 \<le> mat2_get m 0 1
                    \<and> 0 \<le> mat2_get m 1 0 \<and> 0 \<le> mat2_get m 1 1)"

text \<open>\<open>z_object = mtz.Z(z_array=z_test, freq=[1])\<close> of the class docstring, and the tipper
  with the single entry \<open>Tx = 0.1+0j\<close>, \<open>Ty = 0.2+0j\<close> and \<open>freq=[1]\<close>.\<close>

definition z_object :: Z where
  "z_object = fst (Z_init zero_err_fn (Some (Arr2 z_test)) None (Some [1]))"

definition tipper_object :: Tipper where
  "tipper_object = Tipper_init (Some [(Complex (1 / 10) 0, Complex (2 / 10) 0)]) None (Some [1])"

section \<open>Properties\<close>

subsection \<open>The loop of \<open>_compute_res_phase\<close>\<close>


lemma set3_row:
  "set3 (set3 (set3 (set3 a k 0 0 v1) k 0 (Suc 0) v2) k (Suc 0) 0 v3) k (Suc 0) (Suc 0) v4
     = a[k := Mat2 v1 v2 v3 v4]"
proof (cases "k < length a")
  case True
  then show ?thesis by (cases "a ! k") (simp add: set3_def)
next
  case False
  then show ?thesis by (simp add: set3_def list_update_beyond)
qed

lemma get3_set3_same_row:
  "k < length a \<Longrightarrow> get3 (set3 a k ii jj v) k ii' jj' = mat2_get (mat2_set (a ! k) ii jj v) ii' jj'"
  by (simp add: get3_def set3_def)

lemma res_phase_loop_append:
  "res_phase_loop E z f e (xs @ ys) d =
     (case res_phase_loop E z f e xs d of
        (d', Some x) \<Rightarrow> (d', Some x)
      | (d', None) \<Rightarrow> res_phase_loop E z f e ys d')"
  by (induction xs arbitrary: d) (auto split: prod.splits option.splits)

lemma res_phase_cell_ok:
  assumes "k < length freq" "\<forall>e. z_err = Some e \<longrightarrow> k < length e"
  shows "\<exists>d'. res_phase_cell E z freq z_err (k, ii, jj) d = (d', None)
           \<and> resistivity d' = set3 (resistivity d) k ii jj ((cmod (get3 z k ii jj))\<^sup>2 / (freq ! k) * 0.2)
           \<and> phase_deg d' = set3 (phase_deg d) k ii jj (degrees (phase (get3 z k ii jj)))"
  using assms by (cases z_err) (auto simp: res_phase_cell_def Let_def split: prod.splits)

lemma res_phase_row:
  assumes "k < length freq" "\<forall>e. z_err = Some e \<longrightarrow> k < length e"
  shows "\<exists>d'. res_phase_loop E z freq z_err [(k, 0, 0), (k, 0, 1), (k, 1, 0), (k, 1, 1)] d = (d', None)
           \<and> resistivity d' = (resistivity d)[k := resistivity_formula (z ! k) (freq ! k)]
           \<and> phase_deg d' = (phase_deg d)[k := phase_formula (z ! k)]"
proof -
  obtain d1 where d1: "res_phase_cell E z freq z_err (k, 0, 0) d = (d1, None)"
      "resistivity d1 = set3 (resistivity d) k 0 0 ((cmod (get3 z k 0 0))\<^sup>2 / (freq ! k) * 0.2)"
      "phase_deg d1 = set3 (phase_deg d) k 0 0 (degrees (phase (get3 z k 0 0)))"
    using res_phase_cell_ok[OF assms] by blast
  obtain d2 where d2: "res_phase_cell E z freq z_err (k, 0, 1) d1 = (d2, None)"
      "resistivity d2 = set3 (resistivity d1) k 0 1 ((cmod (get3 z k 0 1))\<^sup>2 / (freq ! k) * 0.2)"
      "phase_deg d2 = set3 (phase_deg d1) k 0 1 (degrees (phase (get3 z k 0 1)))"
    using res_phase_cell_ok[OF assms] by blast
  obtain d3 where d3: "res_phase_cell E z freq z_err (k, 1, 0) d2 = (d3, None)"
      "resistivity d3 = set3 (resistivity d2) k 1 0 ((cmod (get3 z k 1 0))\<^sup>2 / (freq ! k) * 0.2)"
      "phase_deg d3 = set3 (phase_deg d2) k 1 0 (degrees (phase (get3 z k 1 0)))"
    using res_phase_cell_ok[OF assms] by blast
  obtain d4 where d4: "res_phase_cell E z freq z_err (k, 1, 1) d3 = (d4, None)"
      "resistivity d4 = set3 (resistivity d3) k 1 1 ((cmod (get3 z k 1 1))\<^sup>2 / (freq ! k) * 0.2)"
      "phase_deg d4 = set3 (phase_deg d3) k 1 1 (degrees (phase (get3 z k 1 1)))"
    using res_phase_cell_ok[OF assms] by blast
  have run: "res_phase_loop E z freq z_err [(k, 0, 0), (k, 0, 1), (k, 1, 0), (k, 1, 1)] d = (d4, None)"
    using d1(1) d2(1) d3(1) d4(1) by simp
  have r: "resistivity d4 = (resistivity d)[k := resistivity_formula (z ! k) (freq ! k)]"
    unfolding d4(2) d3(2) d2(2) d1(2)
    by (cases "z ! k") (simp add: set3_row[simplified] resistivity_formula_def get3_def)
  have p: "phase_deg d4 = (phase_deg d)[k := phase_formula (z ! k)]"
    unfolding d4(3) d3(3) d2(3) d1(3)
    by (cases "z ! k") (simp add: set3_row[simplified] phase_formula_def get3_def phase_def)
  show ?thesis using run r p by blast
qed

lemma cells_Suc: "cells (Suc n) = cells n @ [(n, 0, 0), (n, 0, 1), (n, 1, 0), (n, 1, 1)]"
  by (simp add: cells_def)

lemma res_phase_loop_cells:
  assumes "n \<le> length freq" "\<forall>e. z_err = Some e \<longrightarrow> n \<le> length e"
  shows "\<exists>d'. res_phase_loop E z freq z_err (cells n) d = (d', None)
           \<and> length (resistivity d') = length (resistivity d)
           \<and> length (phase_deg d') = length (phase_deg d)
           \<and> (\<forall>i<length (resistivity d). resistivity d' ! i =
                 (if i < n then resistivity_formula (z ! i) (freq ! i) else resistivity d ! i))
           \<and> (\<forall>i<length (phase_deg d). phase_deg d' ! i =
                 (if i < n then phase_formula (z ! i) else phase_deg d ! i))"
  using assms
proof (induction n)
  case 0
  then show ?case by (simp add: cells_def)
next
  case (Suc n)
  then obtain d1 where d1: "res_phase_loop E z freq z_err (cells n) d = (d1, None)"
      "length (resistivity d1) = length (resistivity d)"
      "length (phase_deg d1) = length (phase_deg d)"
      "\<forall>i<length (resistivity d). resistivity d1 ! i =
           (if i < n then resistivity_formula (z ! i) (freq ! i) else resistivity d ! i)"
      "\<forall>i<length (phase_deg d). phase_deg d1 ! i =
           (if i < n then phase_formula (z ! i) else phase_deg d ! i)"
    by (metis Suc_leD)
  have "n < length freq" "\<forall>e. z_err = Some e \<longrightarrow> n < length e"
    using Suc.prems by auto
  from res_phase_row[OF this, of E z d1]
  obtain d2 where d2: "res_phase_loop E z freq z_err [(n, 0, 0), (n, 0, 1), (n, 1, 0), (n, 1, 1)] d1 = (d2, None)"
      "resistivity d2 = (resistivity d1)[n := resistivity_formula (z ! n) (freq ! n)]"
      "phase_deg d2 = (phase_deg d1)[n := phase_formula (z ! n)]"
    by blast
  have run: "res_phase_loop E z freq z_err (cells (Suc n)) d = (d2, None)"
    unfolding cells_Suc res_phase_loop_append d1(1) using d2(1) by simp
  show ?case
    using run d1(2-5) d2(2,3) by (auto simp: nth_list_update less_Suc_eq)
qed

lemma compute_res_phase_ok:
  assumes "Z_z s = Some z" "Z_freq s = Some freq" "length z \<le> length freq"
    "\<forall>e. Z_z_err s = Some e \<longrightarrow> length z \<le> length e"
  shows "\<exists>s'. compute_res_phase E s = (s', None)
           \<and> Z_resistivity s' = Some (res_of z freq) \<and> Z_phase s' = Some (phase_of z)
           \<and> Z_z s' = Z_z s \<and> Z_freq s' = Z_freq s \<and> Z_z_err s' = Z_z_err s
           \<and> Z_rotation_angle s' = Z_rotation_angle s \<and> Z_log s' = Z_log s"
proof -
  let ?d0 = "\<lparr>resistivity = zeros_like z, phase_deg = zeros_like z,
              resistivity_err = map_option zeros_like (Z_z_err s),
              phase_err = map_option zeros_like (Z_z_err s)\<rparr>"
  from res_phase_loop_cells[OF assms(3), of "Z_z_err s" E z ?d0] assms(4)
  obtain d' where d': "res_phase_loop E z freq (Z_z_err s) (cells (length z)) ?d0 = (d', None)"
      "length (resistivity d') = length z" "length (phase_deg d') = length z"
      "\<forall>i<length z. resistivity d' ! i = resistivity_formula (z ! i) (freq ! i)"
      "\<forall>i<length z. phase_deg d' ! i = phase_formula (z ! i)"
    by (auto simp: zeros_like_def)
  have r: "resistivity d' = res_of z freq"
    using d'(2,4) by (auto simp: res_of_def intro: nth_equalityI)
  have p: "phase_deg d' = phase_of z"
    using d'(3,5) by (auto simp: phase_of_def intro: nth_equalityI)
  show ?thesis
    using assms(1,2) d'(1) r p by (simp add: compute_res_phase_def store_derived_def)
qed

lemma radians_degrees [simp]: "radians (degrees x) = x"
  by (simp add: radians_def degrees_def)

lemma sqrt_sum_squares_factor:
  fixes x y :: real
  assumes "x \<noteq> 0"
  shows "sqrt (x\<^sup>2 + y\<^sup>2) = \<bar>x\<bar> * sqrt (1 + (y / x)\<^sup>2)"
proof -
  have "x\<^sup>2 + y\<^sup>2 = x\<^sup>2 * (1 + (y / x)\<^sup>2)"
    using assms by (simp add: field_simps power2_eq_square)
  then show ?thesis
    by (simp add: real_sqrt_mult)
qed

lemma cmod_cos_atan2: "cmod c * cos (atan2 (Im c) (Re c)) = Re c"
proof -
  have pos: "0 < 1 + (Im c / Re c)\<^sup>2"
    by (smt (verit) zero_le_power2)
  consider "0 < Re c" | "Re c < 0" | "Re c = 0"
    by linarith
  then show ?thesis
  proof cases
    case 1
    then show ?thesis
      using pos by (simp add: atan2_def cmod_def cos_arctan sqrt_sum_squares_factor)
  next
    case 2
    then show ?thesis
      using pos by (simp add: atan2_def cmod_def cos_arctan sqrt_sum_squares_factor cos_diff cos_add)
  next
    case 3
    then show ?thesis
      by (simp add: atan2_def cmod_def)
  qed
qed

lemma cmod_sin_atan2: "cmod c * sin (atan2 (Im c) (Re c)) = Im c"
proof -
  have pos: "0 < 1 + (Im c / Re c)\<^sup>2"
    by (smt (verit) zero_le_power2)
  consider "0 < Re c" | "Re c < 0" | "Re c = 0"
    by linarith
  then show ?thesis
  proof cases
    case 1
    then show ?thesis
      using pos by (simp add: atan2_def cmod_def sin_arctan sqrt_sum_squares_factor)
  next
    case 2
    then show ?thesis
      using pos by (simp add: atan2_def cmod_def sin_arctan sqrt_sum_squares_factor sin_diff sin_add)
  next
    case 3
    then show ?thesis
      by (simp add: atan2_def cmod_def)
  qed
qed

lemma rect_cmod_phase: "rect (cmod c) (phase c) = c"
  by (simp add: rect_def phase_def cmod_cos_atan2 cmod_sin_atan2)

lemma z_of_res_phase_roundtrip:
  assumes "f \<noteq> 0"
  shows "z_of_res_phase f ((cmod c)\<^sup>2 / f * 0.2) (degrees (atan2 (Im c) (Re c))) = c"
proof -
  have "5 * f * ((cmod c)\<^sup>2 / f * 0.2) = (cmod c)\<^sup>2"
    using assms by simp
  then have "sqrt (5 * f * ((cmod c)\<^sup>2 / f * 0.2)) = cmod c"
    by simp
  then show ?thesis
    using rect_cmod_phase[of c] by (simp add: z_of_res_phase_def phase_def)
qed

lemma mat2_roundtrip:
  assumes "f \<noteq> 0"
  shows "mat2_map2 (z_of_res_phase f) (resistivity_formula m f) (phase_formula m) = m"
  using z_of_res_phase_roundtrip[OF assms]
  by (cases m) (simp add: mat2_map2_def resistivity_formula_def phase_formula_def)

lemma fill_z_new_roundtrip:
  assumes "length freq = length z" "\<forall>f\<in>set freq. 0 < f"
  shows "fill_z_new freq (res_of z freq) (phase_of z) (length z) = z"
proof (rule nth_equalityI)
  show "length (fill_z_new freq (res_of z freq) (phase_of z) (length z)) = length z"
    by (simp add: fill_z_new_def)
next
  fix i assume "i < length (fill_z_new freq (res_of z freq) (phase_of z) (length z))"
  then have i: "i < length z" by (simp add: fill_z_new_def)
  then have "freq ! i \<noteq> 0" using assms by (metis less_irrefl nth_mem)
  then show "fill_z_new freq (res_of z freq) (phase_of z) (length z) ! i = z ! i"
    using i by (simp add: fill_z_new_def res_of_def phase_of_def mat2_roundtrip)
qed

lemma phase_one_one: "degrees (atan2 1 1) = 45"
  by (simp add: atan2_def degrees_def arctan_one)

subsection \<open>Resistivity and phase\<close>


lemma get3_res_of:
  "idx_f < length z \<Longrightarrow> ii < 2 \<Longrightarrow> jj < 2 \<Longrightarrow>
   get3 (res_of z freq) idx_f ii jj = (cmod (get3 z idx_f ii jj))\<^sup>2 / (freq ! idx_f) * 0.2"
  by (cases "z ! idx_f") (simp add: get3_def res_of_def resistivity_formula_def)

lemma get3_phase_of:
  "idx_f < length z \<Longrightarrow> ii < 2 \<Longrightarrow> jj < 2 \<Longrightarrow>
   get3 (phase_of z) idx_f ii jj
     = degrees (atan2 (Im (get3 z idx_f ii jj)) (Re (get3 z idx_f ii jj)))"
  by (cases "z ! idx_f") (simp add: get3_def phase_of_def phase_formula_def)

lemma Z_init_z_test:
  "\<exists>s. Z_init E (Some (Arr2 z_test)) None (Some [1]) = (s, None)
       \<and> Z_z s = Some [z_test] \<and> Z_freq s = Some [1] \<and> Z_z_err s = None
       \<and> Z_resistivity s = Some (res_of [z_test] [1]) \<and> Z_phase s = Some (phase_of [z_test])"
proof -
  let ?s = "\<lparr>Z_z = Some [z_test], Z_z_err = None, Z_freq = Some [1],
             Z_rotation_angle = RArray [0],
             Z_resistivity = None, Z_resistivity_err = None,
             Z_phase = None, Z_phase_err = None, Z_log = []\<rparr>"
  have "\<exists>s'. compute_res_phase E ?s = (s', None)
           \<and> Z_resistivity s' = Some (res_of [z_test] [1]) \<and> Z_phase s' = Some (phase_of [z_test])
           \<and> Z_z s' = Z_z ?s \<and> Z_freq s' = Z_freq ?s \<and> Z_z_err s' = Z_z_err ?s
           \<and> Z_rotation_angle s' = Z_rotation_angle ?s \<and> Z_log s' = Z_log ?s"
    by (rule compute_res_phase_ok) simp_all
  then show ?thesis
    by (auto simp: Z_init_def promote_def)
qed

text \<open>
  Claim C1. With tensor and frequencies set (and no array too short for the loop), the
  resistivity that \<open>_compute_res_phase\<close> stores at index \<open>i\<close> and component
  \<open>(ii, jj)\<close> is \<open>|Z[i,ii,jj]|^2 / freq[i] * 0.2\<close> and the phase is the atan2-based
  argument of \<open>Z[i,ii,jj]\<close> in degrees. In particular the Z built from the single matrix \<open>z_test\<close> with \<open>freq=[1]\<close>
  has \<open>resistivity[0,0,1] = 0.4\<close> and \<open>phase[0,0,1] = 45\<close>.
\<close>

theorem C1_resistivity_phase:
  "(\<forall>s z freq idx_f ii jj.
      Z_z s = Some z \<and> Z_freq s = Some freq \<and> length z \<le> length freq
      \<and> (\<forall>e. Z_z_err s = Some e \<longrightarrow> length z \<le> length e)
      \<and> idx_f < length z \<and> ii < 2 \<and> jj < 2 \<and> freq ! idx_f \<noteq> 0 \<longrightarrow>
      (\<exists>s' r p. compute_res_phase E s = (s', None)
         \<and> Z_resistivity s' = Some r \<and> Z_phase s' = Some p
         \<and> get3 r idx_f ii jj = (cmod (get3 z idx_f ii jj))\<^sup>2 / (freq ! idx_f) * 0.2
         \<and> get3 p idx_f ii jj
             = degrees (atan2 (Im (get3 z idx_f ii jj)) (Re (get3 z idx_f ii jj)))))
   \<and> (\<exists>s r p. Z_init E (Some (Arr2 (Mat2 0 (Complex 1 1) (Complex (- 1) (- 1)) 0))) None (Some [1])
                 = (s, None)
         \<and> Z_resistivity s = Some r \<and> Z_phase s = Some p
         \<and> get3 r 0 0 1 = 0.4 \<and> get3 p 0 0 1 = 45)"
proof (intro conjI allI impI)
  fix s :: Z and z :: "complex mat2 list" and freq :: "real list" and idx_f ii jj :: nat
  assume a: "Z_z s = Some z \<and> Z_freq s = Some freq \<and> length z \<le> length freq
      \<and> (\<forall>e. Z_z_err s = Some e \<longrightarrow> length z \<le> length e)
      \<and> idx_f < length z \<and> ii < 2 \<and> jj < 2 \<and> freq ! idx_f \<noteq> 0"
  then obtain s' where s': "compute_res_phase E s = (s', None)"
      "Z_resistivity s' = Some (res_of z freq)" "Z_phase s' = Some (phase_of z)"
    using compute_res_phase_ok[of s z freq E] by blast
  show "\<exists>s' r p. compute_res_phase E s = (s', None)
         \<and> Z_resistivity s' = Some r \<and> Z_phase s' = Some p
         \<and> get3 r idx_f ii jj = (cmod (get3 z idx_f ii jj))\<^sup>2 / (freq ! idx_f) * 0.2
         \<and> get3 p idx_f ii jj
             = degrees (atan2 (Im (get3 z idx_f ii jj)) (Re (get3 z idx_f ii jj)))"
    using s' a get3_res_of[of idx_f z ii jj freq] get3_phase_of[of idx_f z ii jj] by blast
next
  obtain s where s: "Z_init E (Some (Arr2 z_test)) None (Some [1]) = (s, None)"
      "Z_resistivity s = Some (res_of [z_test] [1])" "Z_phase s = Some (phase_of [z_test])"
    using Z_init_z_test by blast
  have r: "get3 (res_of [z_test] [1]) 0 0 1 = 0.4"
    by (simp add: get3_def res_of_def resistivity_formula_def z_test_def cmod_def)
  have p: "get3 (phase_of [z_test]) 0 0 1 = 45"
    by (simp add: get3_def phase_of_def phase_formula_def z_test_def phase_one_one)
  show "\<exists>s r p. Z_init E (Some (Arr2 (Mat2 0 (Complex 1 1) (Complex (- 1) (- 1)) 0))) None (Some [1])
                 = (s, None)
         \<and> Z_resistivity s = Some r \<and> Z_phase s = Some p
         \<and> get3 r 0 0 1 = 0.4 \<and> get3 p 0 0 1 = 45"
    using s r p unfolding z_test_def by blast
qed

theorem C1_resistivity_phase_witness:
  "\<exists>s' r p.
     compute_res_phase zero_err_fn
       \<lparr>Z_z = Some [z_test], Z_z_err = None, Z_freq = Some [1], Z_rotation_angle = RArray [0],
        Z_resistivity = None, Z_resistivity_err = None, Z_phase = None, Z_phase_err = None,
        Z_log = []\<rparr> = (s', None)
     \<and> Z_resistivity s' = Some r \<and> Z_phase s' = Some p
     \<and> get3 r 0 0 1 = 2 / 5 \<and> get3 p 0 0 1 = 45"
proof -
  let ?s = "\<lparr>Z_z = Some [z_test], Z_z_err = None, Z_freq = Some [1], Z_rotation_angle = RArray [0],
        Z_resistivity = None, Z_resistivity_err = None, Z_phase = None, Z_phase_err = None,
        Z_log = []\<rparr>"
  have h: "Z_z ?s = Some [z_test] \<and> Z_freq ?s = Some [1] \<and> length [z_test] \<le> length [1::real]
      \<and> (\<forall>e. Z_z_err ?s = Some e \<longrightarrow> length [z_test] \<le> length e)
      \<and> (0::nat) < length [z_test] \<and> (0::nat) < 2 \<and> (1::nat) < 2 \<and> [1::real] ! 0 \<noteq> 0"
    by simp
  from C1_resistivity_phase[of zero_err_fn, THEN conjunct1, rule_format, OF h]
  show ?thesis
    by (simp add: get3_def z_test_def cmod_def phase_one_one)
qed

subsection \<open>\<open>set_res_phase\<close> inverts the derivation\<close>


lemma length_res_of [simp]: "length (res_of z freq) = length z"
  by (simp add: res_of_def)

lemma length_phase_of [simp]: "length (phase_of z) = length z"
  by (simp add: phase_of_def)

lemma set_z_Arr3_ok:
  assumes "Z_freq s = Some freq" "length a \<le> length freq"
    "\<forall>e. Z_z_err s = Some e \<longrightarrow> length a \<le> length e"
  shows "\<exists>s'. set_z E (Arr3 a) s = (s', None) \<and> Z_z s' = Some a \<and> Z_freq s' = Some freq
           \<and> Z_z_err s' = Z_z_err s
           \<and> Z_resistivity s' = Some (res_of a freq) \<and> Z_phase s' = Some (phase_of a)"
proof -
  define s2 where "s2 = (case Z_rotation_angle s of
       RArray r \<Rightarrow> s\<lparr>Z_z := Some a\<rparr>
     | RFloat r \<Rightarrow> s\<lparr>Z_z := Some a, Z_rotation_angle := RArray (replicate (length a) r)\<rparr>)"
  have f: "Z_z s2 = Some a" "Z_freq s2 = Some freq" "Z_z_err s2 = Z_z_err s"
    using assms(1) by (auto simp: s2_def split: rot.splits)
  have run: "set_z E (Arr3 a) s
      = catch_IndexError ''Need to input frequency array'' (compute_res_phase E s2)"
    by (simp add: set_z_def s2_def split: rot.splits)
  from compute_res_phase_ok[of s2 a freq E] f assms(2,3)
  obtain s' where s': "compute_res_phase E s2 = (s', None)"
      "Z_resistivity s' = Some (res_of a freq)" "Z_phase s' = Some (phase_of a)"
      "Z_z s' = Z_z s2" "Z_freq s' = Z_freq s2" "Z_z_err s' = Z_z_err s2"
    by auto
  show ?thesis
    using run s' f by (simp add: catch_IndexError_def)
qed

text \<open>
  Claim C3. Let \<open>res\<close> and \<open>phase\<close> be the arrays that \<open>_compute_res_phase\<close> derived
  for a Z with tensor \<open>z\<close> and positive frequencies of the same length. Then
  \<open>set_res_phase(res, phase)\<close>, called on any object with these frequencies that holds no
  tensor or any other tensor of the same shape, stores exactly \<open>z\<close>, and the resistivity and
  phase it derives afterwards are \<open>res\<close> and \<open>phase\<close> again. The tensor is rebuilt from
  the two arrays alone: in exact arithmetic \<open>sqrt(5 * freq * res) = |Z|\<close> and the phase is
  restored by the polar-to-rectangular conversion, so it is reproduced exactly, hence within
  every tolerance; zero entries are reproduced too.
\<close>

theorem C3_set_res_phase_roundtrip:
  assumes "Z_z s = Some z" "Z_freq s = Some freq" "length freq = length z"
    "\<forall>f\<in>set freq. 0 < f"
    "\<forall>e. Z_z_err s = Some e \<longrightarrow> length z \<le> length e"
    "compute_res_phase E s = (s1, x)" "Z_resistivity s1 = Some res" "Z_phase s1 = Some ph"
    "Z_freq t = Some freq"
    "Z_z t = None \<or> (\<exists>z0. Z_z t = Some z0 \<and> length z0 = length z)"
    "\<forall>e. Z_z_err t = Some e \<longrightarrow> length z \<le> length e"
  shows "\<exists>t2. set_res_phase E P res ph None None t = (t2, None)
           \<and> Z_z t2 = Some z \<and> Z_freq t2 = Some freq
           \<and> Z_resistivity t2 = Some res \<and> Z_phase t2 = Some ph"
proof -
  from compute_res_phase_ok[of s z freq E] assms(1,2,3,5)
  obtain s' where s': "compute_res_phase E s = (s', None)"
      "Z_resistivity s' = Some (res_of z freq)" "Z_phase s' = Some (phase_of z)"
    by auto
  have eq: "res = res_of z freq" "ph = phase_of z"
    using s' assms(6,7,8) by auto
  have fill: "fill_z_new freq res ph (length res) = z"
    using fill_z_new_roundtrip[OF assms(3,4)] eq by simp
  from set_z_Arr3_ok[of t freq z E] assms(3,9,11)
  obtain t2 where t2: "set_z E (Arr3 z) t = (t2, None)" "Z_z t2 = Some z" "Z_freq t2 = Some freq"
      "Z_resistivity t2 = Some (res_of z freq)" "Z_phase t2 = Some (phase_of z)"
    by auto
  have "set_res_phase E P res ph None None t = (t2, None)"
    using assms(3,9,10) eq fill t2(1) by (auto simp: set_res_phase_def)
  then show ?thesis using t2(2-5) eq by blast
qed

lemma z_object_fields:
  "Z_z z_object = Some [z_test]" "Z_freq z_object = Some [1]" "Z_z_err z_object = None"
  "Z_rotation_angle z_object = RArray [0]"
  "Z_resistivity z_object = Some (res_of [z_test] [1])"
  "Z_phase z_object = Some (phase_of [z_test])"
  "snd (Z_init zero_err_fn (Some (Arr2 z_test)) None (Some [1])) = None"
proof -
  let ?s = "\<lparr>Z_z = Some [z_test], Z_z_err = None, Z_freq = Some [1],
             Z_rotation_angle = RArray [0],
             Z_resistivity = None, Z_resistivity_err = None,
             Z_phase = None, Z_phase_err = None, Z_log = []\<rparr>"
  have "\<exists>s'. compute_res_phase zero_err_fn ?s = (s', None)
           \<and> Z_resistivity s' = Some (res_of [z_test] [1]) \<and> Z_phase s' = Some (phase_of [z_test])
           \<and> Z_z s' = Z_z ?s \<and> Z_freq s' = Z_freq ?s \<and> Z_z_err s' = Z_z_err ?s
           \<and> Z_rotation_angle s' = Z_rotation_angle ?s \<and> Z_log s' = Z_log ?s"
    by (rule compute_res_phase_ok) simp_all
  then obtain s' where s': "compute_res_phase zero_err_fn ?s = (s', None)"
      "Z_resistivity s' = Some (res_of [z_test] [1])" "Z_phase s' = Some (phase_of [z_test])"
      "Z_z s' = Some [z_test]" "Z_freq s' = Some [1]" "Z_z_err s' = None"
      "Z_rotation_angle s' = RArray [0]"
    by auto
  have i: "Z_init zero_err_fn (Some (Arr2 z_test)) None (Some [1]) = (s', None)"
    using s'(1) by (simp add: Z_init_def promote_def)
  show "Z_z z_object = Some [z_test]" "Z_freq z_object = Some [1]" "Z_z_err z_object = None"
    "Z_rotation_angle z_object = RArray [0]"
    "Z_resistivity z_object = Some (res_of [z_test] [1])"
    "Z_phase z_object = Some (phase_of [z_test])"
    "snd (Z_init zero_err_fn (Some (Arr2 z_test)) None (Some [1])) = None"
    using i s' by (simp_all add: z_object_def)
qed

text \<open>The arrays derived for \<open>z_object\<close>, given to an object with the same frequency that
  holds the zero tensor: it holds \<open>z_test\<close> afterwards.\<close>

theorem C3_set_res_phase_roundtrip_witness:
  "\<exists>t2. set_res_phase zero_err_fn zero_err_fn (res_of [z_test] [1]) (phase_of [z_test])
            None None (z_object\<lparr>Z_z := Some [Mat2 0 0 0 0]\<rparr>) = (t2, None)
        \<and> Z_z t2 = Some [z_test] \<and> Z_freq t2 = Some [1]
        \<and> Z_resistivity t2 = Some (res_of [z_test] [1])
        \<and> Z_phase t2 = Some (phase_of [z_test])"
proof -
  let ?s = "\<lparr>Z_z = Some [z_test], Z_z_err = None, Z_freq = Some [1],
             Z_rotation_angle = RArray [0],
             Z_resistivity = None, Z_resistivity_err = None,
             Z_phase = None, Z_phase_err = None, Z_log = []\<rparr>"
  have c: "compute_res_phase zero_err_fn ?s
             = (z_object, snd (Z_init zero_err_fn (Some (Arr2 z_test)) None (Some [1])))"
    by (simp add: z_object_def Z_init_def promote_def)
  show ?thesis
    by (rule C3_set_res_phase_roundtrip[of ?s "[z_test]" "[1]" zero_err_fn z_object _
          "res_of [z_test] [1]" "phase_of [z_test]"
          "z_object\<lparr>Z_z := Some [Mat2 0 0 0 0]\<rparr>" zero_err_fn, OF _ _ _ _ _ c])
       (simp_all add: z_object_fields)
qed

subsection \<open>The setters and the derived attributes\<close>


lemma derived_ok_iff:
  "derived_ok s \<longleftrightarrow>
     (Z_freq s = None \<longrightarrow> Z_resistivity s = None \<and> Z_phase s = None
          \<and> Z_resistivity_err s = None \<and> Z_phase_err s = None)
   \<and> (\<forall>freq z. Z_freq s = Some freq \<and> Z_z s = Some z \<and> length z \<le> length freq
          \<and> (\<forall>e. Z_z_err s = Some e \<longrightarrow> length z \<le> length e)
        \<longrightarrow> Z_resistivity s = Some (res_of z freq) \<and> Z_phase s = Some (phase_of z))"
  by (auto simp: derived_ok_def split: option.splits)

lemma derived_ok_logger [simp]: "derived_ok (logger l msg s) = derived_ok s"
  by (simp add: derived_ok_iff logger_def)

lemma compute_frame:
  assumes "compute_res_phase E s = (s', x)"
  shows "Z_z s' = Z_z s" "Z_freq s' = Z_freq s" "Z_z_err s' = Z_z_err s"
    "Z_rotation_angle s' = Z_rotation_angle s"
  using assms
  by (auto simp: compute_res_phase_def logger_def store_derived_def
      split: option.splits prod.splits)

lemma catch_IndexError_cases:
  "catch_IndexError msg (s, x) = (logger ERROR msg s, None) \<or> catch_IndexError msg (s, x) = (s, x)"
  by (cases x) (auto simp: catch_IndexError_def split: exn.splits)

lemma catch_frame:
  assumes "catch_IndexError msg (s, x) = (s', x')"
  shows "Z_z s' = Z_z s" "Z_freq s' = Z_freq s" "Z_z_err s' = Z_z_err s"
    "Z_rotation_angle s' = Z_rotation_angle s" "derived_ok s' = derived_ok s"
  using assms catch_IndexError_cases[of msg s x] by (auto simp: logger_def derived_ok_iff)

lemma derived_ok_compute:
  assumes "Z_freq s = None \<longrightarrow> Z_resistivity s = None \<and> Z_phase s = None
             \<and> Z_resistivity_err s = None \<and> Z_phase_err s = None"
  shows "derived_ok (fst (compute_res_phase E s))"
proof (cases "Z_freq s")
  case None
  then show ?thesis using assms by (simp add: compute_res_phase_def derived_ok_iff logger_def)
next
  case (Some freq)
  show ?thesis
  proof (cases "Z_z s")
    case None
    then show ?thesis using Some by (simp add: compute_res_phase_def derived_ok_iff logger_def)
  next
    case z: (Some z)
    obtain s' x where r: "compute_res_phase E s = (s', x)" by (cases "compute_res_phase E s")
    note fr = compute_frame[OF r]
    show ?thesis
    proof (cases "length z \<le> length freq \<and> (\<forall>e. Z_z_err s = Some e \<longrightarrow> length z \<le> length e)")
      case True
      with compute_res_phase_ok[of s z freq E] z Some r
      have "Z_resistivity s' = Some (res_of z freq)" "Z_phase s' = Some (phase_of z)" by auto
      then show ?thesis using r fr z Some by (simp add: derived_ok_iff)
    next
      case False
      then show ?thesis using r fr z Some
        by (auto simp: derived_ok_iff split: option.splits)
    qed
  qed
qed

lemma derived_ok_catch_compute:
  assumes "Z_freq s = None \<longrightarrow> Z_resistivity s = None \<and> Z_phase s = None
             \<and> Z_resistivity_err s = None \<and> Z_phase_err s = None"
  shows "derived_ok (fst (catch_IndexError msg (compute_res_phase E s)))"
proof -
  obtain s' x where r: "compute_res_phase E s = (s', x)" by (cases "compute_res_phase E s")
  obtain s'' x' where c: "catch_IndexError msg (s', x) = (s'', x')"
    by (cases "catch_IndexError msg (s', x)")
  have "derived_ok s'" using derived_ok_compute[OF assms, of E] r by simp
  then show ?thesis using catch_frame(5)[OF c] r c by simp
qed

lemma derived_ok_freq_None:
  "derived_ok s \<Longrightarrow> Z_freq s = None \<Longrightarrow>
   Z_resistivity s = None \<and> Z_phase s = None \<and> Z_resistivity_err s = None \<and> Z_phase_err s = None"
  by (simp add: derived_ok_iff)

lemma derived_ok_Z_init: "derived_ok (fst (Z_init E z_array z_err_array freq))"
proof (cases "promote z_array")
  case None
  then show ?thesis by (simp add: Z_init_def derived_ok_iff split: option.splits)
next
  case (Some z)
  then show ?thesis
    by (simp add: Z_init_def derived_ok_compute)
qed

lemma derived_ok_set_freq: "derived_ok s \<Longrightarrow> derived_ok (fst (set_freq E lo_freq s))"
  by (auto simp: set_freq_def Let_def derived_ok_catch_compute split: option.splits)
     (simp add: derived_ok_iff)

lemma derived_ok_set_z: "derived_ok s \<Longrightarrow> derived_ok (fst (set_z E z_array s))"
proof -
  assume ok: "derived_ok s"
  define s1 where "s1 = (case z_array of Arr3 a \<Rightarrow> s\<lparr>Z_z := Some a\<rparr> | Arr2 m \<Rightarrow> s)"
  have n1: "Z_freq s1 = None \<longrightarrow> Z_resistivity s1 = None \<and> Z_phase s1 = None
             \<and> Z_resistivity_err s1 = None \<and> Z_phase_err s1 = None"
    using derived_ok_freq_None[OF ok] by (auto simp: s1_def split: array_arg.splits)
  have z1: "Z_z s1 = None \<Longrightarrow> s1 = s"
    by (auto simp: s1_def split: array_arg.splits)
  show ?thesis
  proof (cases "Z_rotation_angle s1")
    case (RArray r)
    then have "set_z E z_array s =
        (if Z_z s1 \<noteq> None
         then catch_IndexError ''Need to input frequency array'' (compute_res_phase E s1)
         else (s1, None))"
      by (simp add: set_z_def s1_def)
    then show ?thesis using n1 z1 ok by (auto simp: derived_ok_catch_compute)
  next
    case (RFloat r)
    show ?thesis
    proof (cases "Z_z s1")
      case None
      then have "set_z E z_array s = (s1, Some TypeError)"
        using RFloat by (simp add: set_z_def s1_def)
      then show ?thesis using z1[OF None] ok by simp
    next
      case (Some z)
      let ?s2 = "s1\<lparr>Z_rotation_angle := RArray (replicate (length z) r)\<rparr>"
      have "set_z E z_array s
              = catch_IndexError ''Need to input frequency array'' (compute_res_phase E ?s2)"
        using RFloat Some by (simp add: set_z_def s1_def)
      moreover have "Z_freq ?s2 = None \<longrightarrow> Z_resistivity ?s2 = None \<and> Z_phase ?s2 = None
             \<and> Z_resistivity_err ?s2 = None \<and> Z_phase_err ?s2 = None"
        using n1 by simp
      ultimately show ?thesis by (simp add: derived_ok_catch_compute)
    qed
  qed
qed

lemma derived_ok_set_z_err: "derived_ok s \<Longrightarrow> derived_ok (fst (set_z_err E z_err_array s))"
proof -
  assume ok: "derived_ok s"
  show ?thesis
  proof (cases "Z_z s")
    case None
    then show ?thesis using ok by (simp add: set_z_err_def)
  next
    case (Some z)
    define s2 where "s2 = (if length z_err_array \<noteq> length z
                    then logger WARN ''z_err_array shape is not same shape as z'' s else s)
                   \<lparr>Z_z_err := Some z_err_array\<rparr>"
    have "Z_freq s2 = None \<longrightarrow> Z_resistivity s2 = None \<and> Z_phase s2 = None
             \<and> Z_resistivity_err s2 = None \<and> Z_phase_err s2 = None"
      using derived_ok_freq_None[OF ok] by (auto simp: s2_def logger_def)
    moreover have "set_z_err E z_err_array s
              = catch_IndexError ''Need to input frequency array'' (compute_res_phase E s2)"
      using Some by (simp add: set_z_err_def s2_def Let_def)
    ultimately show ?thesis by (simp add: derived_ok_catch_compute)
  qed
qed

text \<open>
  Claim C2, as the code has it. From construction on, the setters of \<open>z\<close>, \<open>z_err\<close> and
  \<open>freq\<close> keep the derived attributes in the state \<open>derived_ok\<close>: without frequencies
  resistivity, phase and their errors are all \<open>None\<close>; and whenever the tensor, the
  frequencies and the tensor error in the state a setter leaves have lengths that let the loop
  of \<open>_compute_res_phase\<close> finish (frequencies, and errors if present, at least as long as
  the tensor), resistivity and phase are exactly the arrays of the formulas for that state.
\<close>

theorem C2_derived_recomputed:
  "derived_ok (fst (Z_init E z_array z_err_array freq))
   \<and> (derived_ok s \<longrightarrow>
        derived_ok (fst (set_z E z_new s))
      \<and> derived_ok (fst (set_z_err E z_err_new s))
      \<and> derived_ok (fst (set_freq E lo_freq s)))"
  using derived_ok_Z_init derived_ok_set_z derived_ok_set_z_err derived_ok_set_freq by blast

lemma res_of_z_test: "f \<noteq> 0 \<Longrightarrow> res_of [z_test] [f] = [Mat2 0 (2 / (5 * f)) (2 / (5 * f)) 0]"
  by (simp add: res_of_def resistivity_formula_def z_test_def cmod_def)

text \<open>The docstring object, then \<open>z_object.freq = [2]\<close>: lengths agree, and the
  resistivity is the one of the new frequency.\<close>

theorem C2_derived_recomputed_witness:
  "derived_ok z_object
   \<and> derived_ok (fst (set_freq zero_err_fn (FSeq [2]) z_object))
   \<and> Z_z (fst (set_freq zero_err_fn (FSeq [2]) z_object)) = Some [z_test]
   \<and> Z_freq (fst (set_freq zero_err_fn (FSeq [2]) z_object)) = Some [2]
   \<and> Z_resistivity (fst (set_freq zero_err_fn (FSeq [2]) z_object))
        = Some [Mat2 0 (1 / 5) (1 / 5) 0]"
proof -
  let ?s1 = "fst (set_freq zero_err_fn (FSeq [2]) z_object)"
  have ok0: "derived_ok z_object"
    using C2_derived_recomputed[of zero_err_fn "Some (Arr2 z_test)" None "Some [1]"]
    by (simp add: z_object_def)
  have ok1: "derived_ok ?s1"
    using C2_derived_recomputed[of zero_err_fn "Some (Arr2 z_test)" None "Some [1]" z_object]
      ok0 by blast
  obtain s' x where r: "compute_res_phase zero_err_fn (z_object\<lparr>Z_freq := Some [2]\<rparr>) = (s', x)"
    by (cases "compute_res_phase zero_err_fn (z_object\<lparr>Z_freq := Some [2]\<rparr>)")
  obtain s'' x' where c: "catch_IndexError ''Need to input frequency array'' (s', x) = (s'', x')"
    by (cases "catch_IndexError ''Need to input frequency array'' (s', x)")
  have run: "set_freq zero_err_fn (FSeq [2]) z_object = (s'', x')"
    using r c by (simp add: set_freq_def z_object_fields)
  have f: "Z_z ?s1 = Some [z_test]" "Z_freq ?s1 = Some [2]" "Z_z_err ?s1 = None"
    using run compute_frame[OF r] catch_frame[OF c] by (simp_all add: z_object_fields)
  have "Z_resistivity ?s1 = Some (res_of [z_test] [2])"
    using ok1 f by (simp add: derived_ok_iff)
  then show ?thesis using ok0 ok1 f by (simp add: res_of_z_test)
qed

lemma cells_2: "cells (Suc (Suc 0)) = [(0, 0, 0), (0, 0, 1), (0, 1, 0), (0, 1, 1)] @ [(1, 0, 0), (1, 0, 1), (1, 1, 0), (1, 1, 1)]"
  by (simp add: cells_def upt_rec)

text \<open>
  Claim C2 as stated fails: the \<open>z\<close> setter does not compare its argument with the
  frequencies. Assigning a tensor of two matrices to \<open>z_object\<close>, which has one frequency,
  makes \<open>_compute_res_phase\<close> raise \<open>IndexError\<close> at index 1; the setter catches it,
  and the resistivity read afterwards has row 0 filled and row 1 still zero, although both
  matrices of the new tensor are \<open>z_test\<close>.
\<close>

theorem C2_counterexample:
  "Z_z (fst (set_z zero_err_fn (Arr3 [z_test, z_test]) z_object)) = Some [z_test, z_test]
   \<and> Z_freq (fst (set_z zero_err_fn (Arr3 [z_test, z_test]) z_object)) = Some [1]
   \<and> Z_resistivity (fst (set_z zero_err_fn (Arr3 [z_test, z_test]) z_object))
        = Some [Mat2 0 (2 / 5) (2 / 5) 0, Mat2 0 0 0 0]
   \<and> snd (set_z zero_err_fn (Arr3 [z_test, z_test]) z_object) = None"
proof -
  let ?z = "[z_test, z_test]"
  let ?s1 = "z_object\<lparr>Z_z := Some ?z\<rparr>"
  let ?d0 = "\<lparr>resistivity = zeros_like ?z, phase_deg = zeros_like ?z,
              resistivity_err = None, phase_err = None\<rparr>"
  obtain d1 where d1:
      "res_phase_loop zero_err_fn ?z [1] None [(0, 0, 0), (0, 0, 1), (0, 1, 0), (0, 1, 1)] ?d0
         = (d1, None)"
      "resistivity d1 = (resistivity ?d0)[0 := resistivity_formula (?z ! 0) ([1] ! 0)]"
    using res_phase_row[of 0 "[1]" None zero_err_fn ?z ?d0] by auto
  have stop: "res_phase_loop zero_err_fn ?z [1] None [(1, 0, 0), (1, 0, 1), (1, 1, 0), (1, 1, 1)] d1
                = (d1, Some IndexError)"
    by (simp add: res_phase_cell_def)
  have loop: "res_phase_loop zero_err_fn ?z [1] None (cells (Suc (Suc 0))) ?d0 = (d1, Some IndexError)"
    unfolding cells_2 res_phase_loop_append d1(1) using stop by simp
  have r1: "resistivity d1 = [Mat2 0 (2 / 5) (2 / 5) 0, Mat2 0 0 0 0]"
    unfolding d1(2)
    by (simp add: zeros_like_def resistivity_formula_def z_test_def cmod_def)
  have c: "compute_res_phase zero_err_fn ?s1 = (store_derived d1 ?s1, Some IndexError)"
    using loop by (simp add: compute_res_phase_def z_object_fields)
  have run: "set_z zero_err_fn (Arr3 ?z) z_object
      = (logger ERROR ''Need to input frequency array'' (store_derived d1 ?s1), None)"
    using c by (simp add: set_z_def z_object_fields catch_IndexError_def)
  show ?thesis
    unfolding run using r1 by (simp add: logger_def store_derived_def z_object_fields)
qed

text \<open>
  Claim C4 fails on the code: for an error array whose shape differs from the tensor's the
  \<open>z_err\<close> setter logs the warning and then stores the array all the same (the test is
  not followed by a \<open>return\<close>, unlike the length test of the \<open>freq\<close> setter). Here
  \<open>z_object\<close> has a tensor of shape \<open>(1, 2, 2)\<close> and no error; an error array of shape
  \<open>(2, 2, 2)\<close> is stored, no exception is raised, whatever \<open>MTcc.z_error2r_phi_error\<close>
  computes.
\<close>

theorem C4_mismatched_z_err_is_stored:
  "Z_z z_object = Some [z_test]
   \<and> Z_z_err z_object = None
   \<and> Z_z_err (fst (set_z_err E [Mat2 1 1 1 1, Mat2 1 1 1 1] z_object))
        = Some [Mat2 1 1 1 1, Mat2 1 1 1 1]
   \<and> Z_log (fst (set_z_err E [Mat2 1 1 1 1, Mat2 1 1 1 1] z_object))
        = Z_log z_object @ [(WARN, ''z_err_array shape is not same shape as z'')]
   \<and> snd (set_z_err E [Mat2 1 1 1 1, Mat2 1 1 1 1] z_object) = None"
proof -
  let ?e = "[Mat2 1 1 1 1, Mat2 1 1 1 1] :: real mat2 list"
  let ?s2 = "(logger WARN ''z_err_array shape is not same shape as z'' z_object)
               \<lparr>Z_z_err := Some ?e\<rparr>"
  have f: "Z_z ?s2 = Some [z_test]" "Z_freq ?s2 = Some [1]"
    by (simp_all add: logger_def z_object_fields)
  from compute_res_phase_ok[of ?s2 "[z_test]" "[1]" E] f
  obtain s' where s': "compute_res_phase E ?s2 = (s', None)" "Z_z_err s' = Z_z_err ?s2"
      "Z_log s' = Z_log ?s2"
    by auto
  have run: "set_z_err E ?e z_object = (s', None)"
    using s'(1) by (simp add: set_z_err_def z_object_fields catch_IndexError_def)
  show ?thesis
    unfolding run using s'(2,3) by (simp add: z_object_fields logger_def)
qed

subsection \<open>Rotation with a wrong number of angles\<close>






lemma tipper_object_fields:
  "T_tipper tipper_object = Some [(Complex (1 / 10) 0, Complex (2 / 10) 0)]"
  "T_tipper_err tipper_object = None"
  "T_rotation_angle tipper_object = RArray [0]"
  "T_angle_real tipper_object = None"
  by (simp_all add: tipper_object_def Tipper_init_def)



subsection \<open>Distortion removal\<close>


lemma distortion_loop_append:
  "distortion_loop DI DI_err z z_err (xs @ ys) acc =
     (case distortion_loop DI DI_err z z_err xs acc of
        Inl e \<Rightarrow> Inl e
      | Inr acc' \<Rightarrow> distortion_loop DI DI_err z z_err ys acc')"
  by (induction xs arbitrary: acc) (auto split: option.splits sum.splits)

lemma distortion_loop_upt:
  assumes "n \<le> length e"
  shows "\<exists>zc' ze'. distortion_loop DI DI_err z (Some e) [0..<n] (zc, Some ze) = Inr (zc', Some ze')
           \<and> length zc' = length zc \<and> length ze' = length ze
           \<and> (\<forall>i<length zc. zc' ! i = (if i < n then dot DI (z ! i) else zc ! i))
           \<and> (\<forall>i<length ze. ze' ! i =
                 (if i < n then corrected_err_row DI DI_err (z ! i) (e ! i) else ze ! i))"
  using assms
proof (induction n)
  case 0
  then show ?case by simp
next
  case (Suc n)
  then obtain zc1 ze1 where 1:
      "distortion_loop DI DI_err z (Some e) [0..<n] (zc, Some ze) = Inr (zc1, Some ze1)"
      "length zc1 = length zc" "length ze1 = length ze"
      "\<forall>i<length zc. zc1 ! i = (if i < n then dot DI (z ! i) else zc ! i)"
      "\<forall>i<length ze. ze1 ! i =
                 (if i < n then corrected_err_row DI DI_err (z ! i) (e ! i) else ze ! i)"
    by (metis Suc_leD)
  have n: "n < length e" using Suc.prems by simp
  have run: "distortion_loop DI DI_err z (Some e) [0..<Suc n] (zc, Some ze)
      = Inr (zc1[n := dot DI (z ! n)],
             Some (ze1[n := corrected_err_row DI DI_err (z ! n) (e ! n)]))"
    using 1(1) n by (simp add: distortion_loop_append)
  show ?case
    unfolding run using 1(2-5) by (auto simp: nth_list_update less_Suc_eq)
qed

lemma dot_identity: "dot (Mat2 1 0 0 1) m = m"
  by (cases m) (simp add: dot_def)

lemma corrected_err_row_identity:
  "nonneg_mat2 em \<Longrightarrow> corrected_err_row (Mat2 1 0 0 1) (Mat2 0 0 0 0) zm em = em"
  by (cases em) (simp add: corrected_err_row_def corrected_err_cell_def nonneg_mat2_def)

lemma remove_distortion_LinAlgError:
  "matrix_I d = None \<Longrightarrow>
   remove_distortion matrix_I invertmatrix_incl_errors (D2 d d_err) s = Inl MTpyError_Z"
  by (cases d_err) (simp_all add: remove_distortion_def first_distortion_def)

text \<open>On a Z whose tensor error is present, of the tensor's shape and not negative, the
  identity matrix gives back tensor and error, if the inverse of the identity is the identity
  and \<open>MTcc.invertmatrix_incl_errors\<close> returns a zero error for it.\<close>

lemma remove_distortion_identity:
  assumes "matrix_I (Mat2 1 0 0 1) = Some (Mat2 1 0 0 1)"
    "invertmatrix_incl_errors (Mat2 1 0 0 1) (Mat2 0 0 0 0) = Inr (dummy, Mat2 0 0 0 0)"
    "Z_z s = Some z" "Z_z_err s = Some e" "length e = length z" "\<forall>em\<in>set e. nonneg_mat2 em"
  shows "remove_distortion matrix_I invertmatrix_incl_errors (D2 (Mat2 1 0 0 1) None) s
           = Inr (Mat2 1 0 0 1, z, Some e)"
proof -
  let ?I = "Mat2 1 0 0 1 :: real mat2" and ?O = "Mat2 0 0 0 0 :: real mat2"
  from distortion_loop_upt[of "length z" e ?I ?O z "zeros_like z" "zeros_like e"] assms(5)
  obtain zc' ze' where l:
      "distortion_loop ?I ?O z (Some e) [0..<length z] (zeros_like z, Some (zeros_like e))
         = Inr (zc', Some ze')"
      "length zc' = length z" "length ze' = length e"
      "\<forall>i<length z. zc' ! i = dot ?I (z ! i)"
      "\<forall>i<length e. ze' ! i = corrected_err_row ?I ?O (z ! i) (e ! i)"
    by (auto simp: zeros_like_def)
  have zc: "zc' = z"
    using l(2,4) by (auto simp: dot_identity intro: nth_equalityI)
  have ze: "ze' = e"
    using l(3,5) assms(6) by (auto simp: corrected_err_row_identity intro!: nth_equalityI)
  show ?thesis
    using assms(1-4) l(1) zc ze
    by (simp add: remove_distortion_def first_distortion_def)
qed

text \<open>
  Claim C6 fails on the code. \<open>remove_distortion\<close> reads \<open>self.z_err[idx_f, 0, jj]\<close>
  without the test \<open>self.z_err is not None\<close> that \<open>rotate\<close>, \<open>_compute_res_phase\<close>,
  \<open>trace\<close>, \<open>skew\<close> and \<open>det\<close> make. On \<open>z_object\<close>, which has a tensor and no tensor
  error, the call with the identity matrix and no distortion error returns nothing: whatever
  numpy's inverse and \<open>MTcc.invertmatrix_incl_errors\<close> do, an exception comes out, and it
  is \<open>TypeError\<close> when both of them return.
\<close>

theorem C6_remove_distortion_without_z_err:
  "Z_z z_object = Some [z_test]
   \<and> Z_z_err z_object = None
   \<and> remove_distortion matrix_I invertmatrix_incl_errors (D2 (Mat2 1 0 0 1) None) z_object
       = Inl (case matrix_I (Mat2 1 0 0 1) of
                None \<Rightarrow> MTpyError_Z
              | Some DI \<Rightarrow>
                  (case invertmatrix_incl_errors (Mat2 1 0 0 1) (Mat2 0 0 0 0) of
                     Inl e \<Rightarrow> e
                   | Inr r \<Rightarrow> TypeError))"
  by (auto simp: remove_distortion_def first_distortion_def z_object_fields upt_rec
      split: option.splits sum.splits)

subsection \<open>Static shift\<close>

lemma Z_init_z: "Z_z (fst (Z_init E z_array z_err_array freq)) = promote z_array"
proof (cases "promote z_array")
  case None
  then show ?thesis by (simp add: Z_init_def)
next
  case (Some z)
  obtain s' x where r: "compute_res_phase E
        \<lparr>Z_z = promote z_array, Z_z_err = promote z_err_array, Z_freq = freq,
               Z_rotation_angle = RArray (replicate (length z) 0),
               Z_resistivity = None, Z_resistivity_err = None,
               Z_phase = None, Z_phase_err = None, Z_log = []\<rparr> = (s', x)"
    by (cases "compute_res_phase E
        \<lparr>Z_z = promote z_array, Z_z_err = promote z_err_array, Z_freq = freq,
               Z_rotation_angle = RArray (replicate (length z) 0),
               Z_resistivity = None, Z_resistivity_err = None,
               Z_phase = None, Z_phase_err = None, Z_log = []\<rparr>")
  from compute_frame(1)[OF r] show ?thesis
    using Some r by (simp add: Z_init_def)
qed

text \<open>With numbers as factors \<open>remove_ss\<close> does what its docstring says: the returned
  static-shift matrix times the returned corrected tensor is the stored tensor.\<close>

lemma remove_ss_scalar_reconstructs:
  assumes "0 < x" "0 < y" "Z_z s = Some z"
  shows "\<exists>S Z0. remove_ss (Scalar x) (Scalar y) s = Inr (S, Z0)
           \<and> length S = length z \<and> length Z0 = length z
           \<and> (\<forall>i<length z. S ! i = Mat2 (sqrt x) 0 0 (sqrt y) \<and> dot (S ! i) (Z0 ! i) = z ! i)"
proof -
  have "dot (Mat2 (sqrt x) 0 0 (sqrt y)) (scale_rows m x y) = m" for m
    using assms(1,2) by (cases m) (simp add: dot_def scale_rows_def)
  then show ?thesis
    using assms(3) by (simp add: remove_ss_def lo_factors_def)
qed

text \<open>
  Claim C7 fails on the code for factors given per index: \<open>remove_ss\<close> documents
  ``float or iterable list or array'', but for an array of two factors and a tensor of two
  matrices it raises \<open>UnboundLocalError\<close> (\<open>x_factor\<close> is read before assignment) and
  returns nothing.
\<close>

theorem C7_remove_ss_factor_array_raises:
  "Z_z (fst (Z_init zero_err_fn (Some (Arr3 [z_test, z_test])) None (Some [1, 2])))
     = Some [z_test, z_test]
   \<and> remove_ss (Seq [2, 3]) (Seq [2, 3])
        (fst (Z_init zero_err_fn (Some (Arr3 [z_test, z_test])) None (Some [1, 2])))
     = Inl UnboundLocalError"
  by (simp add: Z_init_z promote_def remove_ss_def lo_factors_def)

subsection \<open>\<open>only1d\<close> and \<open>only2d\<close>\<close>

lemma only2d_entries:
  "mat2_get (only2d_row m) 0 0 = 0 \<and> mat2_get (only2d_row m) 1 1 = 0
   \<and> mat2_get (only2d_row m) 0 1 = mat2_get m 0 1 \<and> mat2_get (only2d_row m) 1 0 = mat2_get m 1 0"
  by (simp add: only2d_row_def)

lemma only1d_diagonal:
  "mat2_get (only1d_row m) 0 0 = 0 \<and> mat2_get (only1d_row m) 1 1 = 0"
  by (simp add: only1d_row_def Let_def)

text \<open>
  Claim C8 fails on the code for \<open>only1d\<close>. The docstring says that the off-diagonal
  elements keep their signs and that their absolute value is set to the mean of the two
  absolute values; the code multiplies each sign with the mean of the two values themselves.
  For the tensor of the class docstring, whose off-diagonal entries are \<open>1+1j\<close> and
  \<open>-1-1j\<close>, all of \<open>only1d\<close> is zero; for the off-diagonal entries \<open>1\<close> and \<open>-3\<close> the
  result is \<open>-1\<close> and \<open>1\<close>, both signs flipped and the magnitude 1, not 2.
\<close>

theorem C8_only1d_signs_and_mean:
  "get_only1d z_object = Inr [Mat2 0 0 0 0]
   \<and> get_only1d (z_object\<lparr>Z_z := Some [Mat2 0 1 (- 3) 0]\<rparr>) = Inr [Mat2 0 (- 1) 1 0]"
  by (simp add: get_only1d_def only1d_row_def np_sign_def z_object_fields z_test_def
      complex_eq_iff)

subsection \<open>The tipper\<close>

text \<open>
  Claim C9 fails on the code: \<open>Tipper.__init__\<close> sets \<open>angle_real\<close> to \<open>None\<close> and
  never calls \<open>_compute_mag_direction\<close> (unlike \<open>Z.__init__\<close>, which ends with
  \<open>_compute_res_phase\<close>). The value of the claim, \<open>atan2(-0.2, -0.1)\<close> in degrees, is
  what \<open>_compute_mag_direction\<close> would store.
\<close>

theorem C9_tipper_init_angle_real:
  "T_angle_real tipper_object = None
   \<and> T_angle_real (compute_mag_direction tipper_object)
       = Some [degrees (atan2 (- (2 / 10)) (- (1 / 10)))]"
  by (simp add: tipper_object_fields compute_mag_direction_def)

subsection \<open>The \<open>freq\<close> getter\<close>

text \<open>
  Claim C10. With the frequencies stored at address \<open>a\<close>, \<open>_get_freq\<close> returns the address
  \<open>b\<close> of a new array with the same contents: \<open>b\<close> is no address in use, so no assignment
  to an element of the returned array changes what \<open>_freq\<close> refers to, and a second read
  returns an array equal to the first, again a new one.
\<close>

theorem C10_get_freq_fresh_copy:
  assumes "a < length h"
  shows "\<exists>b h'. get_freq (Some a) h = (Some b, h')
           \<and> length h \<le> b \<and> b \<noteq> a \<and> h' ! b = h ! a
           \<and> (\<forall>i v. deref (setitem b i v h') (Some a) = deref h (Some a))
           \<and> (\<exists>c h''. get_freq (Some a) h' = (Some c, h'') \<and> c \<noteq> b \<and> h'' ! c = h' ! b)"
  using assms
  by (simp add: get_freq_def np_array_def deref_def setitem_def nth_append)

theorem C10_get_freq_fresh_copy_witness:
  "\<exists>b h'. get_freq (Some 0) ([1, 2] # []) = (Some b, h')
           \<and> length ([1, 2 :: real] # []) \<le> b \<and> b \<noteq> 0 \<and> h' ! b = [1, 2]
           \<and> (\<forall>i v. deref (setitem b i v h') (Some 0) = Some [1, 2])
           \<and> (\<exists>c h''. get_freq (Some 0) h' = (Some c, h'') \<and> c \<noteq> b \<and> h'' ! c = h' ! b)"
proof -
  have h: "0 < length ([1, 2 :: real] # [])" by simp
  from C10_get_freq_fresh_copy[OF h]
  show ?thesis by (simp add: deref_def)
qed

end
